theory Spec2Isabelle
  imports Main "HOL-Library.Sublist"
begin

section \<open>send_line_notification.py: a LINE push notification for a terminated agent\<close>

text \<open>
  The script reads one JSON event from standard input, formats a text message from it
  (\<open>get_status_message\<close>), pushes the message through the LINE Messaging API
  (\<open>send_line_message\<close>) and maps the outcome to an exit code (\<open>main\<close>).

  What the script takes from outside itself is a parameter of the model: the text read
  from standard input, \<open>json.loads\<close>, the process environment (as it is after
  \<open>load_dotenv()\<close>), the answer of the HTTP endpoint, and Python's \<open>repr\<close> of floats, lists
  and dicts. What the script does to the outside is recorded in a state that is passed
  along: the lines printed to each stream and the HTTP calls made.
\<close>

subsection \<open>Python values\<close>

text \<open>
  A Python \<open>str\<close> is a sequence of Unicode code points. The literals of the source are
  written as lists of code points; their ASCII parts are written with \<open>ascii\<close>.
\<close>

type_synonym pystr = "nat list"

definition ascii :: "string \<Rightarrow> pystr" where
  "ascii s = map of_char s"

text \<open>What \<open>json.loads\<close> can return; a dict is an association list read with \<open>map_of\<close>.\<close>

datatype pyval =
    PNone
  | PBool bool
  | PInt int
  | PFloat "nat"
  | PStr pystr
  | PList "pyval list"
  | PDict "(pystr \<times> pyval) list"

text \<open>\<open>str(n)\<close> of an integer: decimal digits, with a minus sign when negative.\<close>

fun dec_digits :: "nat \<Rightarrow> pystr" where
  "dec_digits n = (if n < 10 then [48 + n] else dec_digits (n div 10) @ [48 + n mod 10])"

declare dec_digits.simps [simp del]

definition str_int :: "int \<Rightarrow> pystr" where
  "str_int i = (if i < 0 then 45 # dec_digits (nat (- i)) else dec_digits (nat i))"

text \<open>
  What an f-string puts for \<open>{v}\<close>, that is \<open>format(v, '')\<close>, which is \<open>str(v)\<close> for the
  values of JSON: a string as it is, an integer in decimal, \<open>True\<close>, \<open>False\<close>, \<open>None\<close>.
  For a float, a list or a dict it is Python's \<open>repr\<close>, taken as the parameter \<open>rp\<close>
  (a \<open>PFloat\<close> holds the 64 bits of the float as a number).
\<close>

definition py_format :: "(pyval \<Rightarrow> pystr) \<Rightarrow> pyval \<Rightarrow> pystr" where
  "py_format rp v =
     (case v of
        PStr s \<Rightarrow> s
      | PInt i \<Rightarrow> str_int i
      | PBool b \<Rightarrow> (if b then ascii ''True'' else ascii ''False'')
      | PNone \<Rightarrow> ascii ''None''
      | _ \<Rightarrow> rp v)"

text \<open>\<open>d.get(key, default)\<close>.\<close>

definition dict_get :: "(pystr \<times> pyval) list \<Rightarrow> pystr \<Rightarrow> pyval \<Rightarrow> pyval" where
  "dict_get d key dflt = (case map_of d key of None \<Rightarrow> dflt | Some v \<Rightarrow> v)"

text \<open>\<open>type(v).__name__\<close>, for the message of an \<open>AttributeError\<close>.\<close>

definition type_name :: "pyval \<Rightarrow> pystr" where
  "type_name v =
     (case v of
        PNone \<Rightarrow> ascii ''NoneType''
      | PBool _ \<Rightarrow> ascii ''bool''
      | PInt _ \<Rightarrow> ascii ''int''
      | PFloat _ \<Rightarrow> ascii ''float''
      | PStr _ \<Rightarrow> ascii ''str''
      | PList _ \<Rightarrow> ascii ''list''
      | PDict _ \<Rightarrow> ascii ''dict'')"

subsection \<open>The message formatter\<close>

text \<open>
  The value of the local variable \<open>base_message\<close> of \<open>get_status_message\<close> once its six
  pieces are joined (lines 32 to 42 of the source). The placeholder of
  \<open>conversation_id\<close>, \<open>model\<close> and \<open>user_email\<close> is the string U+672A U+77E5, that of
  \<open>loop_count\<close> is the integer 0. U+FF1A is the full-width colon that ends each label.
\<close>

definition base_message :: "(pyval \<Rightarrow> pystr) \<Rightarrow> pyval \<Rightarrow> (pystr \<times> pyval) list \<Rightarrow> pystr" where
  "base_message rp status data =
     (let conversation_id = dict_get data (ascii ''conversation_id'') (PStr [0x672A, 0x77E5]);
          model = dict_get data (ascii ''model'') (PStr [0x672A, 0x77E5]);
          loop_count = dict_get data (ascii ''loop_count'') (PInt 0);
          user_email = dict_get data (ascii ''user_email'') (PStr [0x672A, 0x77E5]);
          m0 = [0x1F514] @ ascii '' Cursor Agent '' @ [0x7D42, 0x6B62, 0x901A, 0x77E5, 10, 10];
          m1 = m0 @ [0x72C0, 0x614B, 0xFF1A] @ py_format rp status @ [10];
          m2 = m1 @ [0x5C0D, 0x8A71] @ ascii '' ID'' @ [0xFF1A] @ py_format rp conversation_id @ [10];
          m3 = m2 @ [0x6A21, 0x578B, 0xFF1A] @ py_format rp model @ [10];
          m4 = m3 @ [0x5FAA, 0x74B0, 0x6B21, 0x6578, 0xFF1A] @ py_format rp loop_count @ [10];
          m5 = m4 @ [0x4F7F, 0x7528, 0x8005, 0xFF1A] @ py_format rp user_email @ [10]
      in m5)"

text \<open>
  \<open>get_status_message(status, data)\<close>: the closing line is chosen by comparing \<open>status\<close>
  with four strings, in the order of the source. \<open>status\<close> is whatever
  \<open>data.get("status", "unknown")\<close> gave, so it is a \<open>pyval\<close>; a value that is not a string
  equals none of the four.
\<close>

definition get_status_message :: "(pyval \<Rightarrow> pystr) \<Rightarrow> pyval \<Rightarrow> (pystr \<times> pyval) list \<Rightarrow> pystr" where
  "get_status_message rp status data =
     (if status = PStr (ascii ''completed'') then
        base_message rp status data @ [10, 0x2705] @ ascii '' Agent ''
          @ [0x5DF2, 0x6210, 0x529F, 0x5B8C, 0x6210, 0x4EFB, 0x52D9]
      else if status = PStr (ascii ''error'') then
        base_message rp status data @ [10, 0x274C] @ ascii '' Agent ''
          @ [0x56E0, 0x932F, 0x8AA4, 0x800C, 0x7D42, 0x6B62]
      else if status = PStr (ascii ''cancelled'') then
        base_message rp status data @ [10, 0x26A0, 0xFE0F] @ ascii '' Agent ''
          @ [0x5DF2, 0x88AB, 0x53D6, 0x6D88]
      else if status = PStr (ascii ''timeout'') then
        base_message rp status data @ [10, 0x23F1, 0xFE0F] @ ascii '' Agent ''
          @ [0x56E0, 0x903E, 0x6642, 0x800C, 0x7D42, 0x6B62]
      else
        base_message rp status data @ [10, 0x2139, 0xFE0F] @ ascii '' Agent ''
          @ [0x7D42, 0x6B62, 0x72C0, 0x614B, 0xFF1A] @ py_format rp status)"

subsection \<open>Exceptions, the HTTP library and the process\<close>

text \<open>
  The exceptions the script tells apart, each with its \<open>str(e)\<close>: \<open>json.JSONDecodeError\<close>,
  the \<open>requests.exceptions.RequestException\<close> family (with \<open>e.response\<close>, which is \<open>None\<close>
  when no response was received), and every other subclass of \<open>Exception\<close>.
\<close>

record response =
  status_code :: int
  reason :: pystr
  resp_url :: pystr
  resp_text :: pystr

datatype exn =
    JSONDecodeError pystr
  | RequestException pystr "response option"
  | OtherException pystr

definition exn_str :: "exn \<Rightarrow> pystr" where
  "exn_str e = (case e of JSONDecodeError m \<Rightarrow> m | RequestException m _ \<Rightarrow> m | OtherException m \<Rightarrow> m)"

text \<open>The arguments of one \<open>requests.post(url, headers=..., json=..., timeout=...)\<close>.\<close>

record http_call =
  http_method :: pystr
  call_url :: pystr
  call_headers :: "(pystr \<times> pystr) list"
  call_json :: pyval
  call_timeout :: int

text \<open>
  What a run takes from outside: the result of \<open>sys.stdin.buffer.read().decode('utf-8')\<close>
  (a text, or the exception raised), \<open>json.loads\<close>, \<open>os.getenv\<close> on the environment as
  \<open>load_dotenv()\<close> left it, the answer to an HTTP call (a response, or the exception
  raised), and \<open>repr\<close> of floats, lists and dicts.
\<close>

record runtime =
  stdin_read :: "exn + pystr"
  json_loads :: "pystr \<Rightarrow> exn + pyval"
  getenv :: "pystr \<Rightarrow> pystr option"
  endpoint :: "http_call \<Rightarrow> exn + response"
  py_repr :: "pyval \<Rightarrow> pystr"

text \<open>What a run does to the outside: the texts printed to each stream, the HTTP calls made.\<close>

datatype stream = Stdout | Stderr

record effects =
  stdout :: "pystr list"
  stderr :: "pystr list"
  calls :: "http_call list"

definition no_effects :: effects where
  "no_effects = \<lparr>stdout = [], stderr = [], calls = []\<rparr>"

text \<open>\<open>print(text, file=f)\<close>.\<close>

definition print_file :: "stream \<Rightarrow> pystr \<Rightarrow> effects \<Rightarrow> effects" where
  "print_file f text fx =
     (case f of
        Stdout \<Rightarrow> fx\<lparr>stdout := stdout fx @ [text]\<rparr>
      | Stderr \<Rightarrow> fx\<lparr>stderr := stderr fx @ [text]\<rparr>)"

text \<open>
  \<open>requests.post\<close> (library): one call goes out, and the endpoint's answer comes back.
\<close>

definition requests_post ::
  "runtime \<Rightarrow> pystr \<Rightarrow> (pystr \<times> pystr) list \<Rightarrow> pyval \<Rightarrow> int \<Rightarrow> effects \<Rightarrow> (exn + response) \<times> effects" where
  "requests_post w u hs js t fx =
     (let c = \<lparr>http_method = ascii ''POST'', call_url = u, call_headers = hs,
                 call_json = js, call_timeout = t\<rparr>
      in (endpoint w c, fx\<lparr>calls := calls fx @ [c]\<rparr>))"

text \<open>
  \<open>Response.raise_for_status()\<close> (library): raises \<open>HTTPError\<close>, a \<open>RequestException\<close> that
  carries the response, for a status code from 400 to 599, and returns otherwise.
\<close>

definition raise_for_status :: "response \<Rightarrow> exn + unit" where
  "raise_for_status r =
     (if 400 \<le> status_code r \<and> status_code r < 500 then
        Inl (RequestException
               (str_int (status_code r) @ ascii '' Client Error: '' @ reason r
                  @ ascii '' for url: '' @ resp_url r) (Some r))
      else if 500 \<le> status_code r \<and> status_code r < 600 then
        Inl (RequestException
               (str_int (status_code r) @ ascii '' Server Error: '' @ reason r
                  @ ascii '' for url: '' @ resp_url r) (Some r))
      else Inr ())"

subsection \<open>The notification sender\<close>

definition LINE_API_URL :: pystr where
  "LINE_API_URL = ascii ''https://api.line.me/v2/bot/message/push''"

text \<open>
  \<open>send_line_message(message, access_token, user_id)\<close>. The \<open>try\<close> body is the call and
  \<open>raise_for_status\<close>; the handler takes a \<open>RequestException\<close> only, prints it (and the
  response's text when \<open>e.response\<close> is a response) to the error stream and returns
  \<open>False\<close>. Any other exception leaves the function (\<open>Inl\<close>).
\<close>

definition send_line_message ::
  "runtime \<Rightarrow> pystr \<Rightarrow> pystr \<Rightarrow> pystr \<Rightarrow> effects \<Rightarrow> (exn + bool) \<times> effects" where
  "send_line_message w message access_token user_id fx =
     (let headers = [(ascii ''Content-Type'', ascii ''application/json''),
                     (ascii ''Authorization'', ascii ''Bearer '' @ access_token)];
          payload = PDict [(ascii ''to'', PStr user_id),
                           (ascii ''messages'',
                              PList [PDict [(ascii ''type'', PStr (ascii ''text'')),
                                            (ascii ''text'', PStr message)]])];
          (res, fx1) = requests_post w LINE_API_URL headers payload 10 fx;
          tried = (case res of
                     Inl e \<Rightarrow> Inl e
                   | Inr resp \<Rightarrow>
                       (case raise_for_status resp of Inl e \<Rightarrow> Inl e | Inr _ \<Rightarrow> Inr True))
      in case tried of
           Inr b \<Rightarrow> (Inr b, fx1)
         | Inl (RequestException m r) \<Rightarrow>
             (let fx2 = print_file Stderr
                          ([0x767C, 0x9001] @ ascii '' LINE '' @ [0x901A, 0x77E5, 0x5931, 0x6557]
                             @ ascii '': '' @ m) fx1;
                  fx3 = (case r of
                           Some resp \<Rightarrow>
                             print_file Stderr
                               ([0x56DE, 0x61C9, 0x5167, 0x5BB9] @ ascii '': '' @ resp_text resp) fx2
                         | None \<Rightarrow> fx2)
              in (Inr False, fx3))
         | Inl e \<Rightarrow> (Inl e, fx1))"

subsection \<open>The entry point\<close>

text \<open>
  The handler of the outer \<open>try\<close> of \<open>main\<close>: \<open>except Exception as e\<close> prints the
  exception to the error stream and exits with code 1.
\<close>

definition unexpected :: "exn \<Rightarrow> effects \<Rightarrow> int \<times> effects" where
  "unexpected e fx =
     (1, print_file Stderr
           ([0x767C, 0x751F, 0x672A, 0x9810, 0x671F, 0x7684, 0x932F, 0x8AA4] @ ascii '': ''
              @ exn_str e) fx)"

text \<open>
  \<open>main()\<close>, as the exit code of the process and its effects. \<open>sys.exit\<close> raises
  \<open>SystemExit\<close>, which \<open>except Exception\<close> does not take, so each \<open>sys.exit(n)\<close> ends the
  run with code \<open>n\<close>. \<open>data.get\<close> on a value that is not a dict raises \<open>AttributeError\<close>.
  \<open>if not access_token\<close> holds for \<open>None\<close> and for the empty string.
\<close>

definition main :: "runtime \<Rightarrow> int \<times> effects" where
  "main w =
     (case stdin_read w of
        Inl e \<Rightarrow> unexpected e no_effects
      | Inr input_data \<Rightarrow>
          (case json_loads w input_data of
             Inl (JSONDecodeError m) \<Rightarrow>
               (1, print_file Stderr
                     (ascii ''JSON '' @ [0x89E3, 0x6790, 0x932F, 0x8AA4] @ ascii '': '' @ m)
                     no_effects)
           | Inl e \<Rightarrow> unexpected e no_effects
           | Inr (PDict data) \<Rightarrow>
               (let status = dict_get data (ascii ''status'') (PStr (ascii ''unknown''));
                    access_token = getenv w (ascii ''LINE_CHANNEL_ACCESS_TOKEN'');
                    user_id = getenv w (ascii ''LINE_USER_ID'')
                in if access_token = None \<or> access_token = Some [] then
                     (1, print_file Stderr
                           ([0x932F, 0x8AA4] @ ascii '': LINE_CHANNEL_ACCESS_TOKEN ''
                              @ [0x74B0, 0x5883, 0x8B8A, 0x6578, 0x672A, 0x8A2D, 0x5B9A])
                           no_effects)
                   else if user_id = None \<or> user_id = Some [] then
                     (1, print_file Stderr
                           ([0x932F, 0x8AA4] @ ascii '': LINE_USER_ID ''
                              @ [0x74B0, 0x5883, 0x8B8A, 0x6578, 0x672A, 0x8A2D, 0x5B9A])
                           no_effects)
                   else
                     (let message = get_status_message (py_repr w) status data
                      in case send_line_message w message (the access_token) (the user_id)
                                no_effects of
                           (Inr True, fx) \<Rightarrow>
                             (0, print_file Stderr
                                   (ascii ''LINE '' @ [0x901A, 0x77E5, 0x5DF2, 0x6210, 0x529F,
                                                       0x767C, 0x9001]) fx)
                         | (Inr False, fx) \<Rightarrow>
                             (1, print_file Stderr
                                   (ascii ''LINE '' @ [0x901A, 0x77E5, 0x767C, 0x9001, 0x5931,
                                                       0x6557]) fx)
                         | (Inl e, fx) \<Rightarrow> unexpected e fx))
           | Inr v \<Rightarrow>
               unexpected
                 (OtherException
                    (ascii [CHR 0x27] @ type_name v @ ascii [CHR 0x27]
                       @ ascii '' object has no attribute '' @ ascii [CHR 0x27] @ ascii ''get''
                       @ ascii [CHR 0x27]))
                 no_effects))"

subsection \<open>The example of the specification\<close>

text \<open>
  The input of the specification's example, and the record \<open>json.loads\<close> makes of it.
\<close>

definition example_input :: pystr where
  \<open>example_input = ascii
     ''{"status":"completed","conversation_id":"abc123","model":"gpt","loop_count":3,"user_email":"a@b.com"}''\<close>

definition example_event :: "(pystr \<times> pyval) list" where
  "example_event =
     [(ascii ''status'', PStr (ascii ''completed'')),
      (ascii ''conversation_id'', PStr (ascii ''abc123'')),
      (ascii ''model'', PStr (ascii ''gpt'')),
      (ascii ''loop_count'', PInt 3),
      (ascii ''user_email'', PStr (ascii ''a@b.com''))]"

text \<open>
  A runtime for concrete runs: the example on standard input, a \<open>json.loads\<close> that
  knows the example only, and an environment and an endpoint to choose.
\<close>

definition example_env :: "pystr \<Rightarrow> pystr option" where
  "example_env = [ascii ''LINE_CHANNEL_ACCESS_TOKEN'' \<mapsto> ascii ''token'',
                  ascii ''LINE_USER_ID'' \<mapsto> ascii ''U1'']"

definition example_runtime ::
  "(pystr \<Rightarrow> pystr option) \<Rightarrow> (http_call \<Rightarrow> exn + response) \<Rightarrow> runtime" where
  "example_runtime env ep =
     \<lparr>stdin_read = Inr example_input,
      json_loads = (\<lambda>t. if t = example_input then Inr (PDict example_event)
                         else Inl (JSONDecodeError (ascii ''Expecting value''))),
      getenv = env,
      endpoint = ep,
      py_repr = (\<lambda>v. [])\<rparr>"

text \<open>
  A text outside the JSON standard that \<open>json.loads\<close> accepts: the standard has no \<open>NaN\<close>,
  and Python's parser reads it as the float \<open>nan\<close> (likewise \<open>Infinity\<close> and \<open>-Infinity\<close>).
  The runtime below has this text on standard input, the dict \<open>json.loads\<close> makes of it
  (\<open>nan\<close> is the float with bits \<open>0x7FF8000000000000\<close>, shown as \<open>nan\<close>), both
  credentials, and an endpoint that answers 200.
\<close>

definition nan_input :: pystr where
  \<open>nan_input = ascii ''{"status": NaN}''\<close>

definition nan_runtime :: runtime where
  "nan_runtime =
     \<lparr>stdin_read = Inr nan_input,
      json_loads = (\<lambda>t. if t = nan_input
                         then Inr (PDict [(ascii ''status'', PFloat 0x7FF8000000000000)])
                         else Inl (JSONDecodeError (ascii ''Expecting value''))),
      getenv = example_env,
      endpoint = (\<lambda>c. Inr \<lparr>status_code = 200, reason = ascii ''OK'',
                             resp_url = LINE_API_URL, resp_text = ascii ''{}''\<rparr>),
      py_repr = (\<lambda>v. ascii ''nan'')\<rparr>"

subsection \<open>Helper facts\<close>

lemma ascii_inject: "ascii a = ascii b \<longleftrightarrow> a = b"
  unfolding ascii_def by (simp add: inj_map_eq_map inj_on_def)

lemma py_format_PStr: "py_format rp (PStr s) = s"
  by (simp add: py_format_def)

lemma str_int_0: "str_int 0 = [48]"
  by (simp add: str_int_def dec_digits.simps)

lemma get_status_message_appends:
  "\<exists>closing. get_status_message rp status data = base_message rp status data @ closing"
  unfolding get_status_message_def by (simp split: if_splits)

lemma print_file_simps:
  "stdout (print_file Stderr t fx) = stdout fx"
  "stderr (print_file Stderr t fx) = stderr fx @ [t]"
  "calls (print_file f t fx) = calls fx"
  by (simp_all add: print_file_def split: stream.splits)

lemma send_line_message_calls:
  "calls (snd (send_line_message w message access_token user_id fx)) =
     calls fx @
       [\<lparr>http_method = ascii ''POST'',
         call_url = ascii ''https://api.line.me/v2/bot/message/push'',
         call_headers = [(ascii ''Content-Type'', ascii ''application/json''),
                         (ascii ''Authorization'', ascii ''Bearer '' @ access_token)],
         call_json = PDict [(ascii ''to'', PStr user_id),
                            (ascii ''messages'',
                               PList [PDict [(ascii ''type'', PStr (ascii ''text'')),
                                             (ascii ''text'', PStr message)]])],
         call_timeout = 10\<rparr>]"
  by (simp add: send_line_message_def requests_post_def LINE_API_URL_def Let_def print_file_simps
        split: sum.splits exn.splits option.splits prod.splits)

lemma send_line_message_stdout:
  "stdout (snd (send_line_message w message access_token user_id fx)) = stdout fx"
  by (simp add: send_line_message_def requests_post_def Let_def print_file_simps
        split: sum.splits exn.splits option.splits prod.splits)

lemma send_line_message_result:
  assumes "send_line_message w message access_token user_id fx0 = (r, fx)"
  shows "stdout fx = stdout fx0"
    and "calls fx = calls fx0 @
       [\<lparr>http_method = ascii ''POST'',
         call_url = ascii ''https://api.line.me/v2/bot/message/push'',
         call_headers = [(ascii ''Content-Type'', ascii ''application/json''),
                         (ascii ''Authorization'', ascii ''Bearer '' @ access_token)],
         call_json = PDict [(ascii ''to'', PStr user_id),
                            (ascii ''messages'',
                               PList [PDict [(ascii ''type'', PStr (ascii ''text'')),
                                             (ascii ''text'', PStr message)]])],
         call_timeout = 10\<rparr>]"
  using send_line_message_stdout [of w message access_token user_id fx0]
    send_line_message_calls [of w message access_token user_id fx0] assms
  by simp_all

lemma send_line_message_value:
  "fst (send_line_message w message access_token user_id fx) =
     (case endpoint w
             \<lparr>http_method = ascii ''POST'',
              call_url = ascii ''https://api.line.me/v2/bot/message/push'',
              call_headers = [(ascii ''Content-Type'', ascii ''application/json''),
                              (ascii ''Authorization'', ascii ''Bearer '' @ access_token)],
              call_json = PDict [(ascii ''to'', PStr user_id),
                                 (ascii ''messages'',
                                    PList [PDict [(ascii ''type'', PStr (ascii ''text'')),
                                                  (ascii ''text'', PStr message)]])],
              call_timeout = 10\<rparr> of
        Inr r \<Rightarrow> if 400 \<le> status_code r \<and> status_code r < 600 then Inr False else Inr True
      | Inl (RequestException m ro) \<Rightarrow> Inr False
      | Inl e \<Rightarrow> Inl e)"
  by (simp add: send_line_message_def requests_post_def LINE_API_URL_def Let_def
        raise_for_status_def
        split: sum.splits exn.splits option.splits prod.splits)

lemma main_send:
  assumes "stdin_read w = Inr txt" and "json_loads w txt = Inr (PDict data)"
    and "getenv w (ascii ''LINE_CHANNEL_ACCESS_TOKEN'') = Some access_token" and "access_token \<noteq> []"
    and "getenv w (ascii ''LINE_USER_ID'') = Some user_id" and "user_id \<noteq> []"
  shows "fst (main w) =
           (case fst (send_line_message w
                        (get_status_message (py_repr w)
                           (dict_get data (ascii ''status'') (PStr (ascii ''unknown''))) data)
                        access_token user_id no_effects) of
              Inr True \<Rightarrow> 0 | Inr False \<Rightarrow> 1 | Inl e \<Rightarrow> 1)"
    and "calls (snd (main w)) =
           calls (snd (send_line_message w
                        (get_status_message (py_repr w)
                           (dict_get data (ascii ''status'') (PStr (ascii ''unknown''))) data)
                        access_token user_id no_effects))"
  using assms unfolding main_def Let_def unexpected_def
  by (simp_all add: print_file_simps split: prod.splits sum.splits bool.splits)

lemma send_line_message_accepted:
  assumes "endpoint w
             \<lparr>http_method = ascii ''POST'',
              call_url = ascii ''https://api.line.me/v2/bot/message/push'',
              call_headers = [(ascii ''Content-Type'', ascii ''application/json''),
                              (ascii ''Authorization'', ascii ''Bearer '' @ access_token)],
              call_json = PDict [(ascii ''to'', PStr user_id),
                                 (ascii ''messages'',
                                    PList [PDict [(ascii ''type'', PStr (ascii ''text'')),
                                                  (ascii ''text'', PStr message)]])],
              call_timeout = 10\<rparr> = Inr r"
    and "status_code r < 400 \<or> 600 \<le> status_code r"
  shows "send_line_message w message access_token user_id fx =
           (Inr True,
            fx\<lparr>calls := calls fx @
              [\<lparr>http_method = ascii ''POST'',
                call_url = ascii ''https://api.line.me/v2/bot/message/push'',
                call_headers = [(ascii ''Content-Type'', ascii ''application/json''),
                                (ascii ''Authorization'', ascii ''Bearer '' @ access_token)],
                call_json = PDict [(ascii ''to'', PStr user_id),
                                   (ascii ''messages'',
                                      PList [PDict [(ascii ''type'', PStr (ascii ''text'')),
                                                    (ascii ''text'', PStr message)]])],
                call_timeout = 10\<rparr>]\<rparr>)"
  using assms
  by (auto simp: send_line_message_def requests_post_def LINE_API_URL_def Let_def
        raise_for_status_def)

lemma main_json_raises:
  assumes "stdin_read w = Inr txt" and "json_loads w txt = Inl e"
  shows "fst (main w) = 1" and "calls (snd (main w)) = []"
  using assms
  by (cases e; simp add: main_def unexpected_def print_file_simps no_effects_def)+

lemma main_without_credential:
  assumes "getenv w (ascii ''LINE_CHANNEL_ACCESS_TOKEN'') \<in> {None, Some []}
           \<or> getenv w (ascii ''LINE_USER_ID'') \<in> {None, Some []}"
  shows "fst (main w) = 1 \<and> calls (snd (main w)) = []"
  using assms unfolding main_def unexpected_def Let_def
  by (auto simp: print_file_simps no_effects_def
        split: sum.splits exn.splits pyval.splits)

lemma str_int_3: "str_int 3 = [51]"
  by (simp add: str_int_def dec_digits.simps)

lemma example_message:
  "get_status_message rp (PStr (ascii ''completed'')) example_event =
     [0x1F514] @ ascii '' Cursor Agent '' @ [0x7D42, 0x6B62, 0x901A, 0x77E5, 10, 10]
     @ [0x72C0, 0x614B, 0xFF1A] @ ascii ''completed'' @ [10]
     @ [0x5C0D, 0x8A71] @ ascii '' ID'' @ [0xFF1A] @ ascii ''abc123'' @ [10]
     @ [0x6A21, 0x578B, 0xFF1A] @ ascii ''gpt'' @ [10]
     @ [0x5FAA, 0x74B0, 0x6B21, 0x6578, 0xFF1A] @ ascii ''3'' @ [10]
     @ [0x4F7F, 0x7528, 0x8005, 0xFF1A] @ ascii ''a@b.com'' @ [10]
     @ [10, 0x2705] @ ascii '' Agent '' @ [0x5DF2, 0x6210, 0x529F, 0x5B8C, 0x6210, 0x4EFB, 0x52D9]"
proof -
  have three: "ascii ''3'' = [51]" by (simp add: ascii_def)
  show ?thesis
    unfolding three
    by (simp add: get_status_message_def base_message_def example_event_def dict_get_def
          ascii_inject py_format_def str_int_3 Let_def)
qed

lemma example_runtime_simps:
  "stdin_read (example_runtime env ep) = Inr example_input"
  "json_loads (example_runtime env ep) example_input = Inr (PDict example_event)"
  "getenv (example_runtime example_env ep) (ascii ''LINE_CHANNEL_ACCESS_TOKEN'') = Some (ascii ''token'')"
  "getenv (example_runtime example_env ep) (ascii ''LINE_USER_ID'') = Some (ascii ''U1'')"
  "endpoint (example_runtime env ep) = ep"
  "getenv (example_runtime env ep) = env"
  "py_repr (example_runtime env ep) = (\<lambda>v. [])"
  by (simp_all add: example_runtime_def example_env_def ascii_inject)

lemma ascii_nonempty: "ascii ''token'' \<noteq> []" "ascii ''U1'' \<noteq> []"
  by (simp_all add: ascii_def)

lemma six_parts:
  assumes "m = a @ b @ n1 @ c @ n2 @ d @ n3 @ e @ n4 @ f @ n5 @ g"
  shows "sublist b m \<and> sublist c m \<and> sublist d m \<and> sublist e m \<and> sublist f m \<and> suffix g m"
proof -
  have "m = a @ b @ (n1 @ c @ n2 @ d @ n3 @ e @ n4 @ f @ n5 @ g)" using assms by simp
  then have b: "sublist b m" by (metis sublist_appendI)
  have "m = (a @ b @ n1) @ c @ (n2 @ d @ n3 @ e @ n4 @ f @ n5 @ g)" using assms by simp
  then have c: "sublist c m" by (metis sublist_appendI)
  have "m = (a @ b @ n1 @ c @ n2) @ d @ (n3 @ e @ n4 @ f @ n5 @ g)" using assms by simp
  then have d: "sublist d m" by (metis sublist_appendI)
  have "m = (a @ b @ n1 @ c @ n2 @ d @ n3) @ e @ (n4 @ f @ n5 @ g)" using assms by simp
  then have e: "sublist e m" by (metis sublist_appendI)
  have "m = (a @ b @ n1 @ c @ n2 @ d @ n3 @ e @ n4) @ f @ (n5 @ g)" using assms by simp
  then have f: "sublist f m" by (metis sublist_appendI)
  have "m = (a @ b @ n1 @ c @ n2 @ d @ n3 @ e @ n4 @ f @ n5) @ g" using assms by simp
  then have g: "suffix g m" by (metis suffixI)
  from b c d e f g show ?thesis by simp
qed

section \<open>The claims\<close>

subsection \<open>The message formatter\<close>

text \<open>
  Claim C1. Whatever the event record, a status equal to \<open>completed\<close>, \<open>error\<close>, \<open>cancelled\<close>
  or \<open>timeout\<close> makes \<open>get_status_message\<close> append to the base message the closing line of
  that status: a line feed, then U+2705 (check mark), U+274C (cross mark), U+26A0 U+FE0F
  (warning sign) or U+23F1 U+FE0F (stopwatch), then the fixed text. Every other status
  string \<open>s\<close> gets the generic closing line, which ends with \<open>s\<close> itself.
\<close>

theorem get_status_message_closing_line:
  "get_status_message rp (PStr (ascii ''completed'')) data =
     base_message rp (PStr (ascii ''completed'')) data
       @ [10, 0x2705] @ ascii '' Agent '' @ [0x5DF2, 0x6210, 0x529F, 0x5B8C, 0x6210, 0x4EFB, 0x52D9]
   \<and> get_status_message rp (PStr (ascii ''error'')) data =
     base_message rp (PStr (ascii ''error'')) data
       @ [10, 0x274C] @ ascii '' Agent '' @ [0x56E0, 0x932F, 0x8AA4, 0x800C, 0x7D42, 0x6B62]
   \<and> get_status_message rp (PStr (ascii ''cancelled'')) data =
     base_message rp (PStr (ascii ''cancelled'')) data
       @ [10, 0x26A0, 0xFE0F] @ ascii '' Agent '' @ [0x5DF2, 0x88AB, 0x53D6, 0x6D88]
   \<and> get_status_message rp (PStr (ascii ''timeout'')) data =
     base_message rp (PStr (ascii ''timeout'')) data
       @ [10, 0x23F1, 0xFE0F] @ ascii '' Agent '' @ [0x56E0, 0x903E, 0x6642, 0x800C, 0x7D42, 0x6B62]
   \<and> (s \<notin> {ascii ''completed'', ascii ''error'', ascii ''cancelled'', ascii ''timeout''} \<longrightarrow>
        get_status_message rp (PStr s) data =
          base_message rp (PStr s) data
            @ [10, 0x2139, 0xFE0F] @ ascii '' Agent '' @ [0x7D42, 0x6B62, 0x72C0, 0x614B, 0xFF1A] @ s)"
  by (simp add: get_status_message_def ascii_inject py_format_PStr)

theorem get_status_message_closing_line_witness:
  "ascii ''paused'' \<notin> {ascii ''completed'', ascii ''error'', ascii ''cancelled'', ascii ''timeout''}
   \<and> get_status_message (\<lambda>v. []) (PStr (ascii ''paused'')) [] =
       base_message (\<lambda>v. []) (PStr (ascii ''paused'')) []
         @ [10, 0x2139, 0xFE0F] @ ascii '' Agent '' @ [0x7D42, 0x6B62, 0x72C0, 0x614B, 0xFF1A]
         @ ascii ''paused''"
  using get_status_message_closing_line [of "\<lambda>v. []" "[]" "ascii ''paused''"]
  by (simp add: ascii_inject)

text \<open>
  Claim C2. Whatever the event record and the status, a field among \<open>conversation_id\<close>,
  \<open>model\<close>, \<open>loop_count\<close> and \<open>user_email\<close> that the record does not have is shown by its
  placeholder: right after what precedes it in the message comes the field's label, then
  U+672A U+77E5 (for \<open>loop_count\<close>: the digit 0), then a line feed. The placeholder is
  never empty, and \<open>get_status_message\<close> has no failing branch: it returns a string for
  every input.
\<close>

theorem absent_field_placeholder:
  "(map_of data (ascii ''conversation_id'') = None \<longrightarrow>
      (\<exists>rest. get_status_message rp status data =
         [0x1F514] @ ascii '' Cursor Agent '' @ [0x7D42, 0x6B62, 0x901A, 0x77E5, 10, 10]
         @ [0x72C0, 0x614B, 0xFF1A] @ py_format rp status @ [10]
         @ [0x5C0D, 0x8A71] @ ascii '' ID'' @ [0xFF1A, 0x672A, 0x77E5, 10] @ rest))
   \<and> (map_of data (ascii ''model'') = None \<longrightarrow>
      (\<exists>rest. get_status_message rp status data =
         [0x1F514] @ ascii '' Cursor Agent '' @ [0x7D42, 0x6B62, 0x901A, 0x77E5, 10, 10]
         @ [0x72C0, 0x614B, 0xFF1A] @ py_format rp status @ [10]
         @ [0x5C0D, 0x8A71] @ ascii '' ID'' @ [0xFF1A]
         @ py_format rp (dict_get data (ascii ''conversation_id'') (PStr [0x672A, 0x77E5])) @ [10]
         @ [0x6A21, 0x578B, 0xFF1A, 0x672A, 0x77E5, 10] @ rest))
   \<and> (map_of data (ascii ''loop_count'') = None \<longrightarrow>
      (\<exists>rest. get_status_message rp status data =
         [0x1F514] @ ascii '' Cursor Agent '' @ [0x7D42, 0x6B62, 0x901A, 0x77E5, 10, 10]
         @ [0x72C0, 0x614B, 0xFF1A] @ py_format rp status @ [10]
         @ [0x5C0D, 0x8A71] @ ascii '' ID'' @ [0xFF1A]
         @ py_format rp (dict_get data (ascii ''conversation_id'') (PStr [0x672A, 0x77E5])) @ [10]
         @ [0x6A21, 0x578B, 0xFF1A]
         @ py_format rp (dict_get data (ascii ''model'') (PStr [0x672A, 0x77E5])) @ [10]
         @ [0x5FAA, 0x74B0, 0x6B21, 0x6578, 0xFF1A, 48, 10] @ rest))
   \<and> (map_of data (ascii ''user_email'') = None \<longrightarrow>
      (\<exists>rest. get_status_message rp status data =
         [0x1F514] @ ascii '' Cursor Agent '' @ [0x7D42, 0x6B62, 0x901A, 0x77E5, 10, 10]
         @ [0x72C0, 0x614B, 0xFF1A] @ py_format rp status @ [10]
         @ [0x5C0D, 0x8A71] @ ascii '' ID'' @ [0xFF1A]
         @ py_format rp (dict_get data (ascii ''conversation_id'') (PStr [0x672A, 0x77E5])) @ [10]
         @ [0x6A21, 0x578B, 0xFF1A]
         @ py_format rp (dict_get data (ascii ''model'') (PStr [0x672A, 0x77E5])) @ [10]
         @ [0x5FAA, 0x74B0, 0x6B21, 0x6578, 0xFF1A]
         @ py_format rp (dict_get data (ascii ''loop_count'') (PInt 0)) @ [10]
         @ [0x4F7F, 0x7528, 0x8005, 0xFF1A, 0x672A, 0x77E5, 10] @ rest))"
proof -
  have fmt_unknown: "py_format rp (PStr [0x672A, 0x77E5]) = [0x672A, 0x77E5]"
    by (simp add: py_format_def)
  have fmt_zero: "py_format rp (PInt 0) = [48]"
    by (simp add: py_format_def str_int_0)
  obtain closing
    where msg: "get_status_message rp status data = base_message rp status data @ closing"
    using get_status_message_appends by blast
  show ?thesis
    unfolding msg base_message_def Let_def
    by (simp add: dict_get_def fmt_unknown fmt_zero)
qed

theorem absent_field_placeholder_witness:
  "map_of [] (ascii ''conversation_id'') = (None :: pyval option)
   \<and> map_of [] (ascii ''model'') = (None :: pyval option)
   \<and> map_of [] (ascii ''loop_count'') = (None :: pyval option)
   \<and> map_of [] (ascii ''user_email'') = (None :: pyval option)
   \<and> (\<exists>rest. get_status_message (\<lambda>v. []) (PStr (ascii ''error'')) [] =
         [0x1F514] @ ascii '' Cursor Agent '' @ [0x7D42, 0x6B62, 0x901A, 0x77E5, 10, 10]
         @ [0x72C0, 0x614B, 0xFF1A] @ ascii ''error'' @ [10]
         @ [0x5C0D, 0x8A71] @ ascii '' ID'' @ [0xFF1A, 0x672A, 0x77E5, 10]
         @ [0x6A21, 0x578B, 0xFF1A, 0x672A, 0x77E5, 10]
         @ [0x5FAA, 0x74B0, 0x6B21, 0x6578, 0xFF1A, 48, 10]
         @ [0x4F7F, 0x7528, 0x8005, 0xFF1A, 0x672A, 0x77E5, 10] @ rest)"
  using absent_field_placeholder [of "[]" "\<lambda>v. []" "PStr (ascii ''error'')"]
  by (simp add: py_format_PStr dict_get_def str_int_0 py_format_def)

subsection \<open>The entry point: failures before the send step\<close>

text \<open>
  Claim C3, as amended. When \<open>json.loads\<close> raises on the text from standard input, the run
  exits with code 1 and makes no HTTP call. If what it raises is \<open>JSONDecodeError\<close>, the
  whole run is the parse error printed to the error stream; any other exception
  (\<open>RecursionError\<close> on deep nesting, \<open>ValueError\<close> on an over-long integer) goes to the
  outer handler.
\<close>

theorem bad_json:
  assumes "stdin_read w = Inr txt" and "json_loads w txt = Inl e"
  shows "fst (main w) = 1 \<and> calls (snd (main w)) = []
       \<and> (\<forall>m. e = JSONDecodeError m \<longrightarrow>
             main w = (1, \<lparr>stdout = [],
                             stderr = [ascii ''JSON '' @ [0x89E3, 0x6790, 0x932F, 0x8AA4]
                                       @ ascii '': '' @ m],
                             calls = []\<rparr>))"
  using assms main_json_raises [OF assms]
  by (auto simp: main_def print_file_def no_effects_def)

theorem bad_json_witness:
  "main \<lparr>stdin_read = Inr (ascii ''{status''),
         json_loads = (\<lambda>t. Inl (JSONDecodeError (ascii ''Expecting property name''))),
         getenv = example_env,
         endpoint = (\<lambda>c. Inr \<lparr>status_code = 200, reason = ascii ''OK'',
                                resp_url = LINE_API_URL, resp_text = ascii ''{}''\<rparr>),
         py_repr = (\<lambda>v. [])\<rparr>
   = (1, \<lparr>stdout = [],
          stderr = [ascii ''JSON '' @ [0x89E3, 0x6790, 0x932F, 0x8AA4] @ ascii '': ''
                    @ ascii ''Expecting property name''],
          calls = []\<rparr>)
   \<and> fst (main \<lparr>stdin_read = Inr (ascii ''[[[[''),
         json_loads = (\<lambda>t. Inl (OtherException (ascii ''maximum recursion depth exceeded''))),
         getenv = example_env,
         endpoint = (\<lambda>c. Inr \<lparr>status_code = 200, reason = ascii ''OK'',
                                resp_url = LINE_API_URL, resp_text = ascii ''{}''\<rparr>),
         py_repr = (\<lambda>v. [])\<rparr>) = 1
   \<and> calls (snd (main \<lparr>stdin_read = Inr (ascii ''[[[[''),
         json_loads = (\<lambda>t. Inl (OtherException (ascii ''maximum recursion depth exceeded''))),
         getenv = example_env,
         endpoint = (\<lambda>c. Inr \<lparr>status_code = 200, reason = ascii ''OK'',
                                resp_url = LINE_API_URL, resp_text = ascii ''{}''\<rparr>),
         py_repr = (\<lambda>v. [])\<rparr>)) = []"
  using bad_json
    [of "\<lparr>stdin_read = Inr (ascii ''{status''),
         json_loads = (\<lambda>t. Inl (JSONDecodeError (ascii ''Expecting property name''))),
         getenv = example_env,
         endpoint = (\<lambda>c. Inr \<lparr>status_code = 200, reason = ascii ''OK'',
                                resp_url = LINE_API_URL, resp_text = ascii ''{}''\<rparr>),
         py_repr = (\<lambda>v. [])\<rparr>" "ascii ''{status''"
        "JSONDecodeError (ascii ''Expecting property name'')"]
    bad_json
    [of "\<lparr>stdin_read = Inr (ascii ''[[[[''),
         json_loads = (\<lambda>t. Inl (OtherException (ascii ''maximum recursion depth exceeded''))),
         getenv = example_env,
         endpoint = (\<lambda>c. Inr \<lparr>status_code = 200, reason = ascii ''OK'',
                                resp_url = LINE_API_URL, resp_text = ascii ''{}''\<rparr>),
         py_repr = (\<lambda>v. [])\<rparr>" "ascii ''[[[[''"
        "OtherException (ascii ''maximum recursion depth exceeded'')"]
  by simp

text \<open>
  Claim C3 as it was stated fails: \<open>{"status": NaN}\<close> is not valid JSON, yet \<open>json.loads\<close>
  accepts it, and the run formats a message, makes the call and exits with code 0.
\<close>

theorem nan_accepted_counterexample:
  "stdin_read nan_runtime = Inr nan_input
   \<and> json_loads nan_runtime nan_input
       = Inr (PDict [(ascii ''status'', PFloat 0x7FF8000000000000)])
   \<and> fst (main nan_runtime) = 0
   \<and> length (calls (snd (main nan_runtime))) = 1"
proof -
  have rt: "stdin_read nan_runtime = Inr nan_input"
    "json_loads nan_runtime nan_input
       = Inr (PDict [(ascii ''status'', PFloat 0x7FF8000000000000)])"
    "getenv nan_runtime (ascii ''LINE_CHANNEL_ACCESS_TOKEN'') = Some (ascii ''token'')"
    "getenv nan_runtime (ascii ''LINE_USER_ID'') = Some (ascii ''U1'')"
    by (simp_all add: nan_runtime_def example_env_def ascii_inject)
  have ep: "endpoint nan_runtime = (\<lambda>c. Inr \<lparr>status_code = 200, reason = ascii ''OK'',
                             resp_url = LINE_API_URL, resp_text = ascii ''{}''\<rparr>)"
    by (simp add: nan_runtime_def)
  have "fst (main nan_runtime) = 0"
    unfolding main_send(1) [OF rt(1,2,3) ascii_nonempty(1) rt(4) ascii_nonempty(2)]
      send_line_message_value ep
    by simp
  moreover have "length (calls (snd (main nan_runtime))) = 1"
    unfolding main_send(2) [OF rt(1,2,3) ascii_nonempty(1) rt(4) ascii_nonempty(2)]
      send_line_message_calls
    by (simp add: no_effects_def)
  ultimately show ?thesis using rt(1,2) by simp
qed

text \<open>
  Claim C4. When the text on standard input is valid JSON whose top-level value is not an
  object (\<open>json.loads\<close> returns a value that is not a dict), the run fails: \<open>data.get\<close>
  raises \<open>AttributeError\<close>, the outer handler prints it to the error stream, the exit code
  is 1 and no HTTP call is made.
\<close>

theorem not_a_dict:
  assumes "stdin_read w = Inr txt" and "json_loads w txt = Inr v" and "\<forall>d. v \<noteq> PDict d"
  shows "fst (main w) = 1 \<and> calls (snd (main w)) = []
         \<and> stderr (snd (main w)) =
             [[0x767C, 0x751F, 0x672A, 0x9810, 0x671F, 0x7684, 0x932F, 0x8AA4] @ ascii '': ''
              @ ascii [CHR 0x27] @ type_name v @ ascii [CHR 0x27]
              @ ascii '' object has no attribute '' @ ascii [CHR 0x27] @ ascii ''get''
              @ ascii [CHR 0x27]]"
  using assms
  by (cases v) (simp_all add: main_def unexpected_def print_file_def no_effects_def exn_str_def)

theorem not_a_dict_witness:
  "(\<forall>d. PList [] \<noteq> PDict d)
   \<and> fst (main \<lparr>stdin_read = Inr (ascii ''[]''),
         json_loads = (\<lambda>t. Inr (PList [])),
         getenv = example_env,
         endpoint = (\<lambda>c. Inr \<lparr>status_code = 200, reason = ascii ''OK'',
                                resp_url = LINE_API_URL, resp_text = ascii ''{}''\<rparr>),
         py_repr = (\<lambda>v. [])\<rparr>) = 1
   \<and> calls (snd (main \<lparr>stdin_read = Inr (ascii ''[]''),
         json_loads = (\<lambda>t. Inr (PList [])),
         getenv = example_env,
         endpoint = (\<lambda>c. Inr \<lparr>status_code = 200, reason = ascii ''OK'',
                                resp_url = LINE_API_URL, resp_text = ascii ''{}''\<rparr>),
         py_repr = (\<lambda>v. [])\<rparr>)) = []"
  using not_a_dict
    [of "\<lparr>stdin_read = Inr (ascii ''[]''),
         json_loads = (\<lambda>t. Inr (PList [])),
         getenv = example_env,
         endpoint = (\<lambda>c. Inr \<lparr>status_code = 200, reason = ascii ''OK'',
                                resp_url = LINE_API_URL, resp_text = ascii ''{}''\<rparr>),
         py_repr = (\<lambda>v. [])\<rparr>" "ascii ''[]''" "PList []"]
  by simp

text \<open>
  Claim C5. When \<open>LINE_CHANNEL_ACCESS_TOKEN\<close> or \<open>LINE_USER_ID\<close> is absent from the
  environment, the run exits with code 1 and makes no HTTP call, whatever is on standard
  input.
\<close>

theorem missing_env:
  assumes "getenv w (ascii ''LINE_CHANNEL_ACCESS_TOKEN'') = None
           \<or> getenv w (ascii ''LINE_USER_ID'') = None"
  shows "fst (main w) = 1 \<and> calls (snd (main w)) = []"
  using assms main_without_credential [of w] by auto

theorem missing_env_witness:
  "getenv (example_runtime [ascii ''LINE_CHANNEL_ACCESS_TOKEN'' \<mapsto> ascii ''token'']
             (\<lambda>c. Inr \<lparr>status_code = 200, reason = ascii ''OK'',
                         resp_url = LINE_API_URL, resp_text = ascii ''{}''\<rparr>))
      (ascii ''LINE_USER_ID'') = None
   \<and> fst (main (example_runtime [ascii ''LINE_CHANNEL_ACCESS_TOKEN'' \<mapsto> ascii ''token'']
             (\<lambda>c. Inr \<lparr>status_code = 200, reason = ascii ''OK'',
                         resp_url = LINE_API_URL, resp_text = ascii ''{}''\<rparr>))) = 1
   \<and> calls (snd (main (example_runtime [ascii ''LINE_CHANNEL_ACCESS_TOKEN'' \<mapsto> ascii ''token'']
             (\<lambda>c. Inr \<lparr>status_code = 200, reason = ascii ''OK'',
                         resp_url = LINE_API_URL, resp_text = ascii ''{}''\<rparr>)))) = []"
  using missing_env
    [of "example_runtime [ascii ''LINE_CHANNEL_ACCESS_TOKEN'' \<mapsto> ascii ''token'']
             (\<lambda>c. Inr \<lparr>status_code = 200, reason = ascii ''OK'',
                         resp_url = LINE_API_URL, resp_text = ascii ''{}''\<rparr>)"]
  by (simp add: example_runtime_simps(6) ascii_inject)

text \<open>
  Claim C10. When \<open>LINE_CHANNEL_ACCESS_TOKEN\<close> or \<open>LINE_USER_ID\<close> is set to the empty
  string, the run treats it as missing: it exits with code 1 and makes no HTTP call.
\<close>

theorem empty_env:
  assumes "getenv w (ascii ''LINE_CHANNEL_ACCESS_TOKEN'') = Some []
           \<or> getenv w (ascii ''LINE_USER_ID'') = Some []"
  shows "fst (main w) = 1 \<and> calls (snd (main w)) = []"
  using assms main_without_credential [of w] by auto

theorem empty_env_witness:
  "getenv (example_runtime [ascii ''LINE_CHANNEL_ACCESS_TOKEN'' \<mapsto> [],
                            ascii ''LINE_USER_ID'' \<mapsto> ascii ''U1'']
             (\<lambda>c. Inr \<lparr>status_code = 200, reason = ascii ''OK'',
                         resp_url = LINE_API_URL, resp_text = ascii ''{}''\<rparr>))
      (ascii ''LINE_CHANNEL_ACCESS_TOKEN'') = Some []
   \<and> fst (main (example_runtime [ascii ''LINE_CHANNEL_ACCESS_TOKEN'' \<mapsto> [],
                                 ascii ''LINE_USER_ID'' \<mapsto> ascii ''U1'']
             (\<lambda>c. Inr \<lparr>status_code = 200, reason = ascii ''OK'',
                         resp_url = LINE_API_URL, resp_text = ascii ''{}''\<rparr>))) = 1
   \<and> calls (snd (main (example_runtime [ascii ''LINE_CHANNEL_ACCESS_TOKEN'' \<mapsto> [],
                                        ascii ''LINE_USER_ID'' \<mapsto> ascii ''U1'']
             (\<lambda>c. Inr \<lparr>status_code = 200, reason = ascii ''OK'',
                         resp_url = LINE_API_URL, resp_text = ascii ''{}''\<rparr>)))) = []"
  using empty_env
    [of "example_runtime [ascii ''LINE_CHANNEL_ACCESS_TOKEN'' \<mapsto> [],
                          ascii ''LINE_USER_ID'' \<mapsto> ascii ''U1'']
             (\<lambda>c. Inr \<lparr>status_code = 200, reason = ascii ''OK'',
                         resp_url = LINE_API_URL, resp_text = ascii ''{}''\<rparr>)"]
  by (simp add: example_runtime_simps(6) ascii_inject)

subsection \<open>The notification sender and the exit code\<close>

text \<open>
  Claim C7. Whatever the message, the credential and the recipient, \<open>send_line_message\<close>
  makes exactly one call: a POST to \<open>https://api.line.me/v2/bot/message/push\<close> with the
  headers \<open>Content-Type: application/json\<close> and \<open>Authorization: Bearer <credential>\<close>, a
  timeout of 10 seconds, and the JSON body
  \<open>{"to": <recipient>, "messages": [{"type": "text", "text": <message>}]}\<close>.
\<close>

theorem send_line_message_one_post:
  "calls (snd (send_line_message w message access_token user_id fx)) =
     calls fx @
       [\<lparr>http_method = ascii ''POST'',
         call_url = ascii ''https://api.line.me/v2/bot/message/push'',
         call_headers = [(ascii ''Content-Type'', ascii ''application/json''),
                         (ascii ''Authorization'', ascii ''Bearer '' @ access_token)],
         call_json = PDict [(ascii ''to'', PStr user_id),
                            (ascii ''messages'',
                               PList [PDict [(ascii ''type'', PStr (ascii ''text'')),
                                             (ascii ''text'', PStr message)]])],
         call_timeout = 10\<rparr>]"
  by (rule send_line_message_calls)

text \<open>
  Claim C6, as amended. In every run that reaches the send step exactly one call is made,
  whatever the endpoint answers, and
  \<^item> a response whose status code is not from 400 to 599 (every 2xx is such a one) makes
    \<open>send_line_message\<close> return \<open>True\<close> and the process exit with code 0;
  \<^item> a response whose status code is from 400 to 599 makes it return \<open>False\<close> and the
    process exit with code 1;
  \<^item> a \<open>RequestException\<close> (a network error, a timeout) makes it return \<open>False\<close> and the
    process exit with code 1.
\<close>

theorem send_outcome_exit_code:
  fixes w :: runtime
  defines "message \<equiv> (\<lambda>data. get_status_message (py_repr w)
                          (dict_get data (ascii ''status'') (PStr (ascii ''unknown''))) data)"
  defines "c \<equiv> (\<lambda>data access_token user_id.
        \<lparr>http_method = ascii ''POST'',
         call_url = ascii ''https://api.line.me/v2/bot/message/push'',
         call_headers = [(ascii ''Content-Type'', ascii ''application/json''),
                         (ascii ''Authorization'', ascii ''Bearer '' @ access_token)],
         call_json = PDict [(ascii ''to'', PStr user_id),
                            (ascii ''messages'',
                               PList [PDict [(ascii ''type'', PStr (ascii ''text'')),
                                             (ascii ''text'', PStr (message data))]])],
         call_timeout = 10\<rparr>)"
  assumes "stdin_read w = Inr txt" and "json_loads w txt = Inr (PDict data)"
    and "getenv w (ascii ''LINE_CHANNEL_ACCESS_TOKEN'') = Some access_token" and "access_token \<noteq> []"
    and "getenv w (ascii ''LINE_USER_ID'') = Some user_id" and "user_id \<noteq> []"
  shows "calls (snd (main w)) = [c data access_token user_id]
       \<and> (endpoint w (c data access_token user_id) = Inr r
            \<and> (status_code r < 400 \<or> 600 \<le> status_code r) \<longrightarrow>
          fst (send_line_message w (message data) access_token user_id no_effects) = Inr True
            \<and> fst (main w) = 0 \<and> calls (snd (main w)) = [c data access_token user_id])
       \<and> (endpoint w (c data access_token user_id) = Inr r
            \<and> 400 \<le> status_code r \<and> status_code r < 600 \<longrightarrow>
          fst (send_line_message w (message data) access_token user_id no_effects) = Inr False
            \<and> fst (main w) = 1 \<and> calls (snd (main w)) = [c data access_token user_id])
       \<and> (endpoint w (c data access_token user_id) = Inl (RequestException m ro) \<longrightarrow>
          fst (send_line_message w (message data) access_token user_id no_effects) = Inr False
            \<and> fst (main w) = 1 \<and> calls (snd (main w)) = [c data access_token user_id])"
  unfolding main_send [OF assms(3-8)] send_line_message_calls send_line_message_value
    c_def message_def
  by (auto simp: no_effects_def)

theorem send_outcome_exit_code_witness:
  "fst (main (example_runtime example_env (\<lambda>c. Inr \<lparr>status_code = 200, reason = ascii ''OK'',
                 resp_url = LINE_API_URL, resp_text = ascii ''{}''\<rparr>))) = 0
   \<and> length (calls (snd (main (example_runtime example_env (\<lambda>c. Inr \<lparr>status_code = 200, reason = ascii ''OK'',
                 resp_url = LINE_API_URL, resp_text = ascii ''{}''\<rparr>))))) = 1
   \<and> fst (main (example_runtime example_env (\<lambda>c. Inr \<lparr>status_code = 401, reason = ascii ''Unauthorized'',
                 resp_url = LINE_API_URL, resp_text = ascii ''{}''\<rparr>))) = 1
   \<and> length (calls (snd (main (example_runtime example_env (\<lambda>c. Inr \<lparr>status_code = 401,
                 reason = ascii ''Unauthorized'',
                 resp_url = LINE_API_URL, resp_text = ascii ''{}''\<rparr>))))) = 1
   \<and> fst (main (example_runtime example_env (\<lambda>c. Inl (RequestException (ascii ''Read timed out.'') None)))) = 1
   \<and> length (calls (snd (main (example_runtime example_env
                 (\<lambda>c. Inl (RequestException (ascii ''Read timed out.'') None)))))) = 1"
  using
    send_outcome_exit_code
      [where w = "example_runtime example_env (\<lambda>c. Inr \<lparr>status_code = 200, reason = ascii ''OK'',
                 resp_url = LINE_API_URL, resp_text = ascii ''{}''\<rparr>)"
         and r = "\<lparr>status_code = 200, reason = ascii ''OK'',
                 resp_url = LINE_API_URL, resp_text = ascii ''{}''\<rparr>",
       OF example_runtime_simps(1,2,3) ascii_nonempty(1) example_runtime_simps(4)
         ascii_nonempty(2)]
    send_outcome_exit_code
      [where w = "example_runtime example_env (\<lambda>c. Inr \<lparr>status_code = 401,
                 reason = ascii ''Unauthorized'',
                 resp_url = LINE_API_URL, resp_text = ascii ''{}''\<rparr>)"
         and r = "\<lparr>status_code = 401, reason = ascii ''Unauthorized'',
                 resp_url = LINE_API_URL, resp_text = ascii ''{}''\<rparr>",
       OF example_runtime_simps(1,2,3) ascii_nonempty(1) example_runtime_simps(4)
         ascii_nonempty(2)]
    send_outcome_exit_code
      [where w = "example_runtime example_env (\<lambda>c. Inl (RequestException (ascii ''Read timed out.'') None))"
         and m = "ascii ''Read timed out.''" and ro = None,
       OF example_runtime_simps(1,2,3) ascii_nonempty(1) example_runtime_simps(4)
         ascii_nonempty(2)]
  by (simp add: example_runtime_simps(5))

text \<open>
  Claim C6 as it was stated fails: \<open>raise_for_status\<close> raises for 4xx and 5xx only, so a
  response that is not 2xx, such as 304, still makes \<open>send_line_message\<close> return \<open>True\<close>
  and the process exit with code 0.
\<close>

theorem non_2xx_counterexample:
  "\<not> (200 \<le> (304::int) \<and> (304::int) < 300)
   \<and> fst (send_line_message
             (example_runtime example_env (\<lambda>c. Inr \<lparr>status_code = 304, reason = ascii ''Not Modified'',
                                        resp_url = LINE_API_URL, resp_text = []\<rparr>))
             (get_status_message (\<lambda>v. []) (PStr (ascii ''completed'')) example_event)
             (ascii ''token'') (ascii ''U1'') no_effects) = Inr True
   \<and> fst (main (example_runtime example_env (\<lambda>c. Inr \<lparr>status_code = 304, reason = ascii ''Not Modified'',
                                           resp_url = LINE_API_URL, resp_text = []\<rparr>))) = 0"
  by (simp add: send_line_message_value example_runtime_simps(5)
        main_send(1) [OF example_runtime_simps(1,2,3) ascii_nonempty(1)
          example_runtime_simps(4) ascii_nonempty(2)])

subsection \<open>The streams\<close>

text \<open>
  Claim C8. Whatever the input and the outcome, the run prints nothing to the standard
  output stream, and it prints its diagnostic text to the error stream (at least one line
  in every run).
\<close>

theorem main_stdout_empty:
  "stdout (snd (main w)) = [] \<and> stderr (snd (main w)) \<noteq> []"
  unfolding main_def unexpected_def Let_def
  by (auto simp: print_file_simps no_effects_def dest: send_line_message_result(1)
        split: sum.splits exn.splits option.splits prod.splits pyval.splits bool.splits)

subsection \<open>The example of the specification\<close>

text \<open>
  Claim C9. For the example input, with both environment variables set and an endpoint
  that answers the call with status 200, the run is: one call whose text is the message
  below, the success line on the error stream, exit code 0. That message is what
  \<open>get_status_message\<close> returns for the status and the record of the example; it has the
  five fields as the specification lists them (status \<open>completed\<close>, conversation
  \<open>abc123\<close>, model \<open>gpt\<close>, loop count \<open>3\<close>, user \<open>a@b.com\<close>, each after its label) and
  ends with the closing line of \<open>completed\<close>.
\<close>

theorem specification_example:
  fixes w :: runtime
  defines "message \<equiv>
       [0x1F514] @ ascii '' Cursor Agent '' @ [0x7D42, 0x6B62, 0x901A, 0x77E5, 10, 10]
       @ [0x72C0, 0x614B, 0xFF1A] @ ascii ''completed'' @ [10]
       @ [0x5C0D, 0x8A71] @ ascii '' ID'' @ [0xFF1A] @ ascii ''abc123'' @ [10]
       @ [0x6A21, 0x578B, 0xFF1A] @ ascii ''gpt'' @ [10]
       @ [0x5FAA, 0x74B0, 0x6B21, 0x6578, 0xFF1A] @ ascii ''3'' @ [10]
       @ [0x4F7F, 0x7528, 0x8005, 0xFF1A] @ ascii ''a@b.com'' @ [10]
       @ [10, 0x2705] @ ascii '' Agent ''
       @ [0x5DF2, 0x6210, 0x529F, 0x5B8C, 0x6210, 0x4EFB, 0x52D9]"
  defines "c \<equiv> (\<lambda>access_token user_id.
        \<lparr>http_method = ascii ''POST'',
         call_url = ascii ''https://api.line.me/v2/bot/message/push'',
         call_headers = [(ascii ''Content-Type'', ascii ''application/json''),
                         (ascii ''Authorization'', ascii ''Bearer '' @ access_token)],
         call_json = PDict [(ascii ''to'', PStr user_id),
                            (ascii ''messages'',
                               PList [PDict [(ascii ''type'', PStr (ascii ''text'')),
                                             (ascii ''text'', PStr message)]])],
         call_timeout = 10\<rparr>)"
  assumes "stdin_read w = Inr example_input"
    and "json_loads w example_input = Inr (PDict example_event)"
    and "getenv w (ascii ''LINE_CHANNEL_ACCESS_TOKEN'') = Some access_token" and "access_token \<noteq> []"
    and "getenv w (ascii ''LINE_USER_ID'') = Some user_id" and "user_id \<noteq> []"
    and "endpoint w (c access_token user_id) = Inr r"
    and "status_code r = 200"
  shows "main w =
           (0, \<lparr>stdout = [],
                stderr = [ascii ''LINE '' @ [0x901A, 0x77E5, 0x5DF2, 0x6210, 0x529F, 0x767C, 0x9001]],
                calls = [c access_token user_id]\<rparr>)
       \<and> get_status_message (py_repr w)
             (dict_get example_event (ascii ''status'') (PStr (ascii ''unknown''))) example_event
           = message
       \<and> sublist ([0x72C0, 0x614B, 0xFF1A] @ ascii ''completed'') message
       \<and> sublist ([0x5C0D, 0x8A71] @ ascii '' ID'' @ [0xFF1A] @ ascii ''abc123'') message
       \<and> sublist ([0x6A21, 0x578B, 0xFF1A] @ ascii ''gpt'') message
       \<and> sublist ([0x5FAA, 0x74B0, 0x6B21, 0x6578, 0xFF1A] @ ascii ''3'') message
       \<and> sublist ([0x4F7F, 0x7528, 0x8005, 0xFF1A] @ ascii ''a@b.com'') message
       \<and> suffix ([10, 0x2705] @ ascii '' Agent ''
                   @ [0x5DF2, 0x6210, 0x529F, 0x5B8C, 0x6210, 0x4EFB, 0x52D9]) message"
proof -
  have status: "dict_get example_event (ascii ''status'') (PStr (ascii ''unknown''))
                  = PStr (ascii ''completed'')"
    by (simp add: dict_get_def example_event_def)
  have formatted:
    "get_status_message (py_repr w) (PStr (ascii ''completed'')) example_event = message"
    unfolding message_def by (rule example_message)
  have parts:
    "message =
       ([0x1F514] @ ascii '' Cursor Agent '' @ [0x7D42, 0x6B62, 0x901A, 0x77E5, 10, 10])
       @ ([0x72C0, 0x614B, 0xFF1A] @ ascii ''completed'') @ [10]
       @ ([0x5C0D, 0x8A71] @ ascii '' ID'' @ [0xFF1A] @ ascii ''abc123'') @ [10]
       @ ([0x6A21, 0x578B, 0xFF1A] @ ascii ''gpt'') @ [10]
       @ ([0x5FAA, 0x74B0, 0x6B21, 0x6578, 0xFF1A] @ ascii ''3'') @ [10]
       @ ([0x4F7F, 0x7528, 0x8005, 0xFF1A] @ ascii ''a@b.com'') @ [10]
       @ ([10, 0x2705] @ ascii '' Agent ''
            @ [0x5DF2, 0x6210, 0x529F, 0x5B8C, 0x6210, 0x4EFB, 0x52D9])"
    unfolding message_def by simp
  have shown: "sublist ([0x72C0, 0x614B, 0xFF1A] @ ascii ''completed'') message
       \<and> sublist ([0x5C0D, 0x8A71] @ ascii '' ID'' @ [0xFF1A] @ ascii ''abc123'') message
       \<and> sublist ([0x6A21, 0x578B, 0xFF1A] @ ascii ''gpt'') message
       \<and> sublist ([0x5FAA, 0x74B0, 0x6B21, 0x6578, 0xFF1A] @ ascii ''3'') message
       \<and> sublist ([0x4F7F, 0x7528, 0x8005, 0xFF1A] @ ascii ''a@b.com'') message
       \<and> suffix ([10, 0x2705] @ ascii '' Agent ''
                   @ [0x5DF2, 0x6210, 0x529F, 0x5B8C, 0x6210, 0x4EFB, 0x52D9]) message"
    by (rule six_parts [OF parts])
  have ok: "status_code r < 400 \<or> 600 \<le> status_code r"
    using assms(10) by simp
  have sent: "send_line_message w message access_token user_id no_effects =
                (Inr True, no_effects\<lparr>calls := calls no_effects @ [c access_token user_id]\<rparr>)"
    unfolding c_def by (rule send_line_message_accepted [OF assms(9) [unfolded c_def] ok])
  have run: "main w =
           (0, \<lparr>stdout = [],
                stderr = [ascii ''LINE '' @ [0x901A, 0x77E5, 0x5DF2, 0x6210, 0x529F, 0x767C, 0x9001]],
                calls = [c access_token user_id]\<rparr>)"
    using assms(3-8)
    by (simp add: main_def Let_def status formatted sent [unfolded no_effects_def]
          print_file_def no_effects_def)
  from run status formatted shown show ?thesis by simp
qed

theorem specification_example_witness:
  "fst (main (example_runtime example_env
                (\<lambda>c. Inr \<lparr>status_code = 200, reason = ascii ''OK'',
                            resp_url = LINE_API_URL, resp_text = ascii ''{}''\<rparr>))) = 0
   \<and> stderr (snd (main (example_runtime example_env
                (\<lambda>c. Inr \<lparr>status_code = 200, reason = ascii ''OK'',
                            resp_url = LINE_API_URL, resp_text = ascii ''{}''\<rparr>))))
       = [ascii ''LINE '' @ [0x901A, 0x77E5, 0x5DF2, 0x6210, 0x529F, 0x767C, 0x9001]]
   \<and> length (calls (snd (main (example_runtime example_env
                (\<lambda>c. Inr \<lparr>status_code = 200, reason = ascii ''OK'',
                            resp_url = LINE_API_URL, resp_text = ascii ''{}''\<rparr>))))) = 1
   \<and> suffix ([10, 0x2705] @ ascii '' Agent ''
                @ [0x5DF2, 0x6210, 0x529F, 0x5B8C, 0x6210, 0x4EFB, 0x52D9])
       (get_status_message (\<lambda>v. [])
          (dict_get example_event (ascii ''status'') (PStr (ascii ''unknown''))) example_event)"
  using specification_example
    [where w = "example_runtime example_env
                  (\<lambda>c. Inr \<lparr>status_code = 200, reason = ascii ''OK'',
                              resp_url = LINE_API_URL, resp_text = ascii ''{}''\<rparr>)"
       and r = "\<lparr>status_code = 200, reason = ascii ''OK'',
                 resp_url = LINE_API_URL, resp_text = ascii ''{}''\<rparr>",
     OF example_runtime_simps(1,2,3) ascii_nonempty(1) example_runtime_simps(4)
       ascii_nonempty(2)]
  by (simp add: example_runtime_simps(5,7))

end
